theory Spec2Isabelle
  imports Main "HOL-Library.AList"
begin

section \<open>Python values, objects and the heap\<close>

text \<open>
  The module \<^verbatim>\<open>sysml/system.py\<close> defines one class, \<^verbatim>\<open>Model\<close>. Its methods mutate
  dictionaries and element objects that the caller and other \<^verbatim>\<open>Model\<close> instances can
  also hold, so dictionaries and element objects live in an explicit heap and the
  methods pass the heap along. Every exception the methods can raise is a value of
  type \<open>error\<close>; a method returns \<open>error + result\<close>, with \<open>Inl\<close> for the exception.
\<close>

type_synonym addr = nat

text \<open>
  Modelled from the spec: the element classes \<^verbatim>\<open>Block\<close>, \<^verbatim>\<open>Requirement\<close>,
  \<^verbatim>\<open>ConstraintBlock\<close> and \<^verbatim>\<open>Package\<close> come from \<^verbatim>\<open>sysml.elements\<close>, which is
  imported with \<^verbatim>\<open>from sysml.elements import *\<close> and is not part of the source at hand.
  The spec (4.1) lists them as four distinct element types; they are taken as four
  unrelated classes without \<^verbatim>\<open>__getitem__\<close>, \<^verbatim>\<open>__add__\<close>, \<^verbatim>\<open>split\<close> or
  \<^verbatim>\<open>__slots__\<close>. \<open>OtherClass\<close> stands for any class that is not one of the four.
\<close>

datatype pyclass = Block | Requirement | ConstraintBlock | Package | OtherClass

datatype pytype = Class pyclass | NoneType | IntType | StrType | DictType

text \<open>
  A relationship is a \<^verbatim>\<open>dict\<close> holding strings under the keys
  \<^verbatim>\<open>"relationshipType"\<close>, \<^verbatim>\<open>"source"\<close> and \<^verbatim>\<open>"target"\<close> (spec, section 3); the
  methods read no other entry. \<^verbatim>\<open>_generateKey\<close> compares the relationship type with
  \<^verbatim>\<open>is\<close>, that is by object identity: \<open>interned\<close> records whether the string stored
  under \<^verbatim>\<open>"relationshipType"\<close> is the interned string object, as a literal that looks like
  an identifier is, and hence the very object that is the key of
  \<^verbatim>\<open>_validRelationships\<close> when the characters agree.
\<close>

record relationship =
  relationshipType :: string
  source :: string
  target :: string
  interned :: bool

datatype pyval =
    VNone
  | VInt int
  | VStr string
  | VObj addr
  | VRel relationship

text \<open>
  An instance of a class: its class, the label its constructor stored, and the
  attribute \<^verbatim>\<open>uuid\<close>, absent until \<^verbatim>\<open>_setElement\<close> assigns it.
\<close>

record pyobj =
  cls :: pyclass
  obj_label :: "string option"
  uuid :: "string option"

text \<open>
  A \<^verbatim>\<open>dict\<close> keeps its entries in insertion order; assigning to an existing key keeps the
  key's position (\<open>AList.update\<close>), \<^verbatim>\<open>len\<close> is the number of entries.
\<close>

type_synonym pydict = "(pyval \<times> pyval) list"

text \<open>
  The heap: the class instances, the dictionaries, the next address at which a constructor
  call places a new instance, and the number of calls of \<^verbatim>\<open>uuid.uuid1()\<close> made so far.
\<close>

record world =
  objs :: "addr \<Rightarrow> pyobj"
  dicts :: "addr \<Rightarrow> pydict"
  next_obj :: addr
  uuid_calls :: nat

text \<open>
  The exceptions, one constructor for each place that raises. The first three are
  \<^verbatim>\<open>ValueError\<close>s:
  \<^item> \<open>InvalidKey k\<close>: \<^verbatim>\<open>raise ValueError(repr(key) + " is not a valid key. ...")\<close>, the
    only message built from the key;
  \<^item> \<open>UnpackError n\<close>: the assignment \<^verbatim>\<open>elementName, id_no = key.split('-')\<close> when the
    split has \<open>n \<noteq> 2\<close> parts (\<^verbatim>\<open>not enough values to unpack (expected 2, got 1)\<close>,
    \<^verbatim>\<open>too many values to unpack (expected 2)\<close>);
  \<^item> \<open>IntLiteralError s\<close>: \<^verbatim>\<open>int(id_no)\<close> on a string that is no integer literal.

  The \<^verbatim>\<open>TypeError\<close>s:
  \<^item> \<open>NotADict\<close>: \<^verbatim>\<open>raise TypeError(repr(x) + " must be a dictionary.")\<close>;
  \<^item> \<open>NotAnElement v\<close>: \<^verbatim>\<open>raise TypeError(repr(element) + " is not a valid model element.")\<close>;
  \<^item> \<open>MissingTarget t\<close>: \<^verbatim>\<open>raise TypeError(relationship["target"] + " does not exist in model.")\<close>;
  \<^item> \<open>OperandError\<close>: \<^verbatim>\<open>+\<close> between a value that is not a string and a string, while a
    message is built;
  \<^item> \<open>NotSubscriptable\<close>: \<^verbatim>\<open>relationship["source"]\<close> on a value that is not a \<^verbatim>\<open>dict\<close>;
  \<^item> \<open>MissingArgument\<close>: the call \<^verbatim>\<open>self._generateKey(element)\<close>, one argument short;
  \<^item> \<open>Unhashable\<close>: a \<^verbatim>\<open>dict\<close> used as a dictionary key.

  \<open>NoAttribute a\<close> is the \<^verbatim>\<open>AttributeError\<close> of looking up the attribute \<open>a\<close>,
  \<open>NameUndefined n\<close> the \<^verbatim>\<open>NameError\<close> of reading the name \<open>n\<close>, and \<open>KeyMissing k\<close> the
  \<^verbatim>\<open>KeyError\<close> of subscripting a dictionary with an absent key.
\<close>

datatype error =
    InvalidKey pyval
  | UnpackError nat
  | IntLiteralError string
  | NotADict
  | NotAnElement pyval
  | MissingTarget string
  | OperandError
  | NotSubscriptable
  | MissingArgument
  | Unhashable
  | NoAttribute string
  | NameUndefined string
  | KeyMissing pyval

datatype pyexc = ValueError | TypeError | AttributeError | NameError | KeyError

fun exc_class :: "error \<Rightarrow> pyexc" where
  "exc_class (InvalidKey k) = ValueError"
| "exc_class (UnpackError n) = ValueError"
| "exc_class (IntLiteralError s) = ValueError"
| "exc_class NotADict = TypeError"
| "exc_class (NotAnElement v) = TypeError"
| "exc_class (MissingTarget t) = TypeError"
| "exc_class OperandError = TypeError"
| "exc_class NotSubscriptable = TypeError"
| "exc_class MissingArgument = TypeError"
| "exc_class Unhashable = TypeError"
| "exc_class (NoAttribute a) = AttributeError"
| "exc_class (NameUndefined n) = NameError"
| "exc_class (KeyMissing k) = KeyError"

fun py_type :: "world \<Rightarrow> pyval \<Rightarrow> pytype" where
  "py_type w VNone = NoneType"
| "py_type w (VInt i) = IntType"
| "py_type w (VStr s) = StrType"
| "py_type w (VObj a) = Class (cls (objs w a))"
| "py_type w (VRel r) = DictType"

text \<open>
  Modelled from the spec: \<^verbatim>\<open>isinstance\<close> depends on the class hierarchy of
  \<^verbatim>\<open>sysml.elements\<close>, which is absent; with four unrelated element classes it holds
  exactly when the type of the value is the class.
\<close>

definition py_isinstance :: "world \<Rightarrow> pyval \<Rightarrow> pytype \<Rightarrow> bool" where
  "py_isinstance w v T = (py_type w v = T)"

fun hashable :: "pyval \<Rightarrow> bool" where
  "hashable (VRel r) = False"
| "hashable v = True"

definition keys :: "pydict \<Rightarrow> pyval list" where
  "keys d = map fst d"

section \<open>Strings: \<^verbatim>\<open>str.split\<close>, \<^verbatim>\<open>str\<close> and \<^verbatim>\<open>int\<close>\<close>

text \<open>\<^verbatim>\<open>s.split('-')\<close>: the parts between the dashes, one more than there are dashes.\<close>

fun split_dash :: "string \<Rightarrow> string list" where
  "split_dash [] = [[]]"
| "split_dash (c # cs) =
     (if c = CHR ''-'' then [] # split_dash cs
      else (case split_dash cs of
              [] \<Rightarrow> [[c]]
            | p # ps \<Rightarrow> (c # p) # ps))"

text \<open>\<^verbatim>\<open>str(n)\<close> for a natural number: its decimal digits.\<close>

definition digit_char :: "nat \<Rightarrow> char" where
  "digit_char d = ''0123456789'' ! d"

fun str_nat :: "nat \<Rightarrow> string" where
  "str_nat n = (if n < 10 then [digit_char n]
                else str_nat (n div 10) @ [digit_char (n mod 10)])"

declare str_nat.simps [simp del]

text \<open>
  \<^verbatim>\<open>int(s)\<close> on a string of ASCII characters: white space around the literal is dropped,
  one sign may lead, and the digits may be grouped by single underscores. \<open>None\<close> is the
  \<^verbatim>\<open>ValueError\<close> of an invalid literal.
\<close>

definition is_space :: "char \<Rightarrow> bool" where
  "is_space c = (c \<in> set [CHR 0x20, CHR 0x09, CHR 0x0A, CHR 0x0B, CHR 0x0C, CHR 0x0D,
                           CHR 0x1C, CHR 0x1D, CHR 0x1E, CHR 0x1F])"

definition strip :: "string \<Rightarrow> string" where
  "strip s = rev (dropWhile is_space (rev (dropWhile is_space s)))"

definition digit_val :: "char \<Rightarrow> nat option" where
  "digit_val c = map_of [(CHR ''0'', 0), (CHR ''1'', 1), (CHR ''2'', 2), (CHR ''3'', 3),
                         (CHR ''4'', 4), (CHR ''5'', 5), (CHR ''6'', 6), (CHR ''7'', 7),
                         (CHR ''8'', 8), (CHR ''9'', 9)] c"

text \<open>
  The digits of a literal, read from the left: \<open>d\<close> says that the character before was a
  digit (an underscore needs a digit on both sides), \<open>acc\<close> is the value read so far.
\<close>

fun int_digits :: "bool \<Rightarrow> nat \<Rightarrow> string \<Rightarrow> nat option" where
  "int_digits d acc [] = (if d then Some acc else None)"
| "int_digits d acc (c # cs) =
     (case digit_val c of
        Some v \<Rightarrow> int_digits True (10 * acc + v) cs
      | None \<Rightarrow> (if c = CHR ''_'' \<and> d then int_digits False acc cs else None))"

definition py_int :: "string \<Rightarrow> int option" where
  "py_int s =
     (case strip s of
        [] \<Rightarrow> None
      | c # cs \<Rightarrow>
          (if c = CHR ''-'' then map_option (\<lambda>n. - int n) (int_digits False 0 cs)
           else if c = CHR ''+'' then map_option int (int_digits False 0 cs)
           else map_option int (int_digits False 0 (c # cs))))"

section \<open>The class \<^verbatim>\<open>Model\<close>\<close>

subsection \<open>Schema tables\<close>

text \<open>
  The class attributes \<^verbatim>\<open>_validElements\<close> and \<^verbatim>\<open>_validRelationships\<close>, in the order of the
  source (a \<^verbatim>\<open>dict\<close> is iterated in insertion order).
\<close>

definition validElements :: "(string \<times> pytype) list" where
  "validElements =
     [(''block'', Class Block),
      (''requirement'', Class Requirement),
      (''constraint'', Class ConstraintBlock),
      (''package'', Class Package)]"

definition validRelationships :: "(string \<times> pytype list \<times> pytype list) list" where
  "validRelationships =
     [(''containment'', [Class Block], [Class Block]),
      (''inheritance'', [Class Block], [Class Block]),
      (''association'', [Class Block], [Class Block]),
      (''generalization'', [Class Block], [Class Block]),
      (''partProperty'', [Class Block], [Class Block]),
      (''valueProperty'', [Class Block], [Class Block]),
      (''referenceProperty'', [Class Block], [Class Block]),
      (''flowProperty'', [Class Block], [Class Block])]"

subsection \<open>Instances and the constructor\<close>

text \<open>
  An instance holds references. No method assigns an attribute of the instance after
  \<^verbatim>\<open>__init__\<close>, so an instance is a value; what changes is the heap. \<^verbatim>\<open>__init__\<close> assigns
  \<^verbatim>\<open>_label\<close> and \<^verbatim>\<open>_elements\<close> only: \<open>m_relationships\<close> is \<open>None\<close> on every instance it
  builds, and \<open>Some a\<close> stands for an instance on which other code has set the attribute
  \<^verbatim>\<open>_relationships\<close> to the dictionary at \<open>a\<close>.
\<close>

record model =
  m_label :: pyval
  m_elements :: addr
  m_relationships :: "addr option"

text \<open>
  The default value \<^verbatim>\<open>{}\<close> of the parameter \<^verbatim>\<open>elements\<close> is one dictionary, made when the
  \<^verbatim>\<open>def\<close> statement runs, at the address \<open>default_elements\<close>. A call that omits an argument
  (\<open>None\<close> here) binds the parameter to its default. The parameter \<^verbatim>\<open>relationships\<close> is not
  used by the body.
\<close>

definition default_elements :: addr where
  "default_elements = 0"

definition init :: "pyval option \<Rightarrow> addr option \<Rightarrow> model" where
  "init label elements =
     \<lparr>m_label = (case label of None \<Rightarrow> VNone | Some l \<Rightarrow> l),
      m_elements = (case elements of None \<Rightarrow> default_elements | Some a \<Rightarrow> a),
      m_relationships = None\<rparr>"

subsection \<open>Validators\<close>

definition isValidElement :: "world \<Rightarrow> pyval \<Rightarrow> bool" where
  "isValidElement w element = (py_type w element \<in> set (map snd validElements))"

text \<open>
  \<^verbatim>\<open>_isValidElementKey\<close> and \<^verbatim>\<open>_isValidRelationshipKey\<close>: the split is unpacked into two
  names, which raises unless there are exactly two parts; \<^verbatim>\<open>and\<close> evaluates \<^verbatim>\<open>int(id_no)\<close>
  only when the name is registered, and \<^verbatim>\<open>isinstance(int(id_no), int)\<close> holds whenever
  \<^verbatim>\<open>int\<close> returns.
\<close>

definition isValidElementKey :: "pyval \<Rightarrow> error + bool" where
  "isValidElementKey key =
     (case key of
        VStr s \<Rightarrow>
          (case split_dash s of
             [elementName, id_no] \<Rightarrow>
               (if elementName \<in> set (map fst validElements)
                then (case py_int id_no of
                        None \<Rightarrow> Inl (IntLiteralError id_no)
                      | Some i \<Rightarrow> Inr True)
                else Inr False)
           | parts \<Rightarrow> Inl (UnpackError (length parts)))
      | _ \<Rightarrow> Inl (NoAttribute ''split''))"

definition isValidRelationshipKey :: "pyval \<Rightarrow> error + bool" where
  "isValidRelationshipKey key =
     (case key of
        VStr s \<Rightarrow>
          (case split_dash s of
             [relationship, id_no] \<Rightarrow>
               (if relationship \<in> set (map fst validRelationships)
                then (case py_int id_no of
                        None \<Rightarrow> Inl (IntLiteralError id_no)
                      | Some i \<Rightarrow> Inr True)
                else Inr False)
           | parts \<Rightarrow> Inl (UnpackError (length parts)))
      | _ \<Rightarrow> Inl (NoAttribute ''split''))"

text \<open>
  \<^verbatim>\<open>_isValidRelationship\<close> subscripts \<^verbatim>\<open>self._elements\<close> with the source and the target
  and \<^verbatim>\<open>_validRelationships\<close> with the relationship type: each raises \<^verbatim>\<open>KeyError\<close> on an
  absent key.
\<close>

definition isValidRelationship :: "model \<Rightarrow> world \<Rightarrow> pyval \<Rightarrow> error + bool" where
  "isValidRelationship self w relationship =
     (case relationship of
        VRel r \<Rightarrow>
          (case map_of (dicts w (m_elements self)) (VStr (source r)) of
             None \<Rightarrow> Inl (KeyMissing (VStr (source r)))
           | Some src \<Rightarrow>
               (case map_of (dicts w (m_elements self)) (VStr (target r)) of
                  None \<Rightarrow> Inl (KeyMissing (VStr (target r)))
                | Some tgt \<Rightarrow>
                    (case map_of validRelationships (relationshipType r) of
                       None \<Rightarrow> Inl (KeyMissing (VStr (relationshipType r)))
                     | Some (sources, targets) \<Rightarrow>
                         Inr (py_type w src \<in> set sources \<and> py_type w tgt \<in> set targets))))
      | _ \<Rightarrow> Inl NotSubscriptable)"

subsection \<open>Key generation\<close>

text \<open>
  The inner loop of \<^verbatim>\<open>_generateKey\<close>: the first candidate \<^verbatim>\<open>name + "-" + str(id_no)\<close> that
  is no key of the store; \<open>None\<close> when the range is used up.
\<close>

fun probe :: "string \<Rightarrow> nat list \<Rightarrow> pyval list \<Rightarrow> string option" where
  "probe name [] ks = None"
| "probe name (id_no # rest) ks =
     (let newKey = name @ ''-'' @ str_nat id_no
      in if VStr newKey \<notin> set ks then Some newKey else probe name rest ks)"

text \<open>The loop over \<^verbatim>\<open>_validElements\<close>; falling off its end returns \<^verbatim>\<open>None\<close>.\<close>

fun generateKey_elements ::
  "world \<Rightarrow> pyval \<Rightarrow> nat \<Rightarrow> pyval list \<Rightarrow> (string \<times> pytype) list \<Rightarrow> pyval" where
  "generateKey_elements w element maxId_no ks [] = VNone"
| "generateKey_elements w element maxId_no ks ((validElement, T) # rest) =
     (if py_isinstance w element T
      then (case probe validElement [1 ..< maxId_no + 1] ks of
              Some newKey \<Rightarrow> VStr newKey
            | None \<Rightarrow> generateKey_elements w element maxId_no ks rest)
      else generateKey_elements w element maxId_no ks rest)"

text \<open>
  The loop over \<^verbatim>\<open>_validRelationships\<close>. \<^verbatim>\<open>self._relationships\<close> is read in the body of the
  inner loop, so only when the range is not empty.
\<close>

fun generateKey_relationships ::
  "model \<Rightarrow> world \<Rightarrow> relationship \<Rightarrow> nat \<Rightarrow> string list \<Rightarrow> error + pyval" where
  "generateKey_relationships self w r maxId_no [] = Inr VNone"
| "generateKey_relationships self w r maxId_no (validRelationship # rest) =
     (if interned r \<and> relationshipType r = validRelationship
      then (if maxId_no = 0 then generateKey_relationships self w r maxId_no rest
            else (case m_relationships self of
                    None \<Rightarrow> Inl (NoAttribute ''_relationships'')
                  | Some a \<Rightarrow>
                      (case probe validRelationship [1 ..< maxId_no + 1] (keys (dicts w a)) of
                         Some newKey \<Rightarrow> Inr (VStr newKey)
                       | None \<Rightarrow> generateKey_relationships self w r maxId_no rest)))
      else generateKey_relationships self w r maxId_no rest)"

definition generateKey :: "model \<Rightarrow> world \<Rightarrow> pyval \<Rightarrow> nat \<Rightarrow> error + pyval" where
  "generateKey self w element maxId_no =
     (if isValidElement w element
      then Inr (generateKey_elements w element maxId_no
                  (keys (dicts w (m_elements self))) validElements)
      else (case isValidRelationship self w element of
              Inl e \<Rightarrow> Inl e
            | Inr True \<Rightarrow>
                (case element of
                   VRel r \<Rightarrow>
                     generateKey_relationships self w r maxId_no (map fst validRelationships)
                 | _ \<Rightarrow> Inl NotSubscriptable)
            | Inr False \<Rightarrow> Inl OperandError))"

subsection \<open>Insertion\<close>

text \<open>
  \<^verbatim>\<open>x.uuid = s\<close>: a class instance takes the attribute; \<^verbatim>\<open>None\<close>, an \<^verbatim>\<open>int\<close>, a \<^verbatim>\<open>str\<close>
  and a \<^verbatim>\<open>dict\<close> do not.
\<close>

definition set_uuid :: "pyval \<Rightarrow> string \<Rightarrow> world \<Rightarrow> error + world" where
  "set_uuid x s w =
     (case x of
        VObj a \<Rightarrow> Inr (w\<lparr>objs := (objs w)(a := (objs w a)\<lparr>uuid := Some s\<rparr>)\<rparr>)
      | _ \<Rightarrow> Inl (NoAttribute ''uuid''))"

text \<open>
  \<^verbatim>\<open>_setElement\<close>. The identifier source is a parameter: \<open>gen n\<close> is the string that
  \<^verbatim>\<open>str(uuid.uuid1())\<close> returns at call number \<open>n\<close>. The second statement of the
  \<^verbatim>\<open>else\<close> branch reads the entry back from the store before it assigns the attribute.
\<close>

definition setElement ::
  "(nat \<Rightarrow> string) \<Rightarrow> model \<Rightarrow> pyval \<Rightarrow> pyval \<Rightarrow> world \<Rightarrow> error + world" where
  "setElement gen self key element w =
     (if key = VNone then Inl MissingArgument
      else if \<not> isValidElement w element then Inl (NotAnElement element)
      else if \<not> hashable key then Inl Unhashable
      else
        (let d = AList.update key element (dicts w (m_elements self));
             w1 = w\<lparr>dicts := (dicts w)(m_elements self := d)\<rparr>;
             s = gen (uuid_calls w1);
             w2 = w1\<lparr>uuid_calls := Suc (uuid_calls w1)\<rparr>
         in (case map_of (dicts w2 (m_elements self)) key of
               None \<Rightarrow> Inl (KeyMissing key)
             | Some x \<Rightarrow> set_uuid x s w2)))"

text \<open>
  \<^verbatim>\<open>_setRelationship\<close>. The messages of the first and of the third \<^verbatim>\<open>raise\<close> read the name
  \<^verbatim>\<open>relationships\<close>, which is neither a local nor a global of the module, so building
  the message raises \<^verbatim>\<open>NameError\<close> before \<^verbatim>\<open>TypeError\<close> is constructed.
\<close>

definition setRelationship :: "model \<Rightarrow> pyval \<Rightarrow> pyval \<Rightarrow> world \<Rightarrow> error + world" where
  "setRelationship self key relationship w =
     (case relationship of
        VRel r \<Rightarrow>
          (if VStr (source r) \<notin> set (keys (dicts w (m_elements self)))
           then Inl (NameUndefined ''relationships'')
           else if VStr (target r) \<notin> set (keys (dicts w (m_elements self)))
           then Inl (MissingTarget (target r))
           else (case isValidRelationship self w relationship of
                   Inl e \<Rightarrow> Inl e
                 | Inr False \<Rightarrow> Inl (NameUndefined ''relationships'')
                 | Inr True \<Rightarrow>
                     (case m_relationships self of
                        None \<Rightarrow> Inl (NoAttribute ''_relationships'')
                      | Some a \<Rightarrow>
                          (if \<not> hashable key then Inl Unhashable
                           else Inr (w\<lparr>dicts := (dicts w)
                                        (a := AList.update key relationship (dicts w a))\<rparr>)))))
      | _ \<Rightarrow> Inl NotSubscriptable)"

subsection \<open>Item access\<close>

definition setitem ::
  "(nat \<Rightarrow> string) \<Rightarrow> model \<Rightarrow> pyval \<Rightarrow> pyval \<Rightarrow> world \<Rightarrow> error + world" where
  "setitem gen self key element w =
     (case isValidElementKey key of
        Inl e \<Rightarrow> Inl e
      | Inr True \<Rightarrow> setElement gen self key element w
      | Inr False \<Rightarrow>
          (case isValidRelationshipKey key of
             Inl e \<Rightarrow> Inl e
           | Inr True \<Rightarrow> setRelationship self key element w
           | Inr False \<Rightarrow> Inl (InvalidKey key)))"

definition getitem :: "model \<Rightarrow> pyval \<Rightarrow> world \<Rightarrow> error + pyval" where
  "getitem self key w =
     (if \<not> hashable key then Inl Unhashable
      else (case map_of (dicts w (m_elements self)) key of
              Some v \<Rightarrow> Inr v
            | None \<Rightarrow>
                (case m_relationships self of
                   None \<Rightarrow> Inl (NoAttribute ''_relationships'')
                 | Some a \<Rightarrow>
                     (case map_of (dicts w a) key of
                        Some v \<Rightarrow> Inr v
                      | None \<Rightarrow> Inl (InvalidKey key)))))"

subsection \<open>Properties\<close>

text \<open>The getters return the reference to the live dictionary.\<close>

definition elements :: "model \<Rightarrow> addr" where
  "elements self = m_elements self"

definition relationships :: "model \<Rightarrow> error + addr" where
  "relationships self =
     (case m_relationships self of
        None \<Rightarrow> Inl (NoAttribute ''_relationships'')
      | Some a \<Rightarrow> Inr a)"

text \<open>
  The argument of a bulk setter: a \<^verbatim>\<open>dict\<close>, with its entries in iteration order, or a
  value of another type.
\<close>

datatype setter_arg = ArgDict pydict | ArgOther

text \<open>
  The setter of \<^verbatim>\<open>elements\<close> calls \<^verbatim>\<open>self._setElements\<close>, a name the class does not define
  (the method is \<^verbatim>\<open>_setElement\<close>): the lookup raises at the first key.
\<close>

fun elements_setter_loop :: "model \<Rightarrow> pydict \<Rightarrow> pyval list \<Rightarrow> world \<Rightarrow> error + world" where
  "elements_setter_loop self d [] w = Inr w"
| "elements_setter_loop self d (key # rest) w = Inl (NoAttribute ''_setElements'')"

definition elements_setter :: "model \<Rightarrow> setter_arg \<Rightarrow> world \<Rightarrow> error + world" where
  "elements_setter self arg w =
     (case arg of
        ArgOther \<Rightarrow> Inl NotADict
      | ArgDict d \<Rightarrow> elements_setter_loop self d (keys d) w)"

text \<open>
  The setter of \<^verbatim>\<open>relationships\<close> unpacks \<^verbatim>\<open>key.split('-')\<close> itself before it asks
  \<^verbatim>\<open>_isValidRelationshipKey\<close>; the message of its \<^verbatim>\<open>ValueError\<close> is \<^verbatim>\<open>key + "..."\<close>.
\<close>

fun relationships_setter_loop ::
  "model \<Rightarrow> pydict \<Rightarrow> pyval list \<Rightarrow> world \<Rightarrow> error + world" where
  "relationships_setter_loop self d [] w = Inr w"
| "relationships_setter_loop self d (key # rest) w =
     (case key of
        VStr s \<Rightarrow>
          (case split_dash s of
             [elementName, id_no] \<Rightarrow>
               (case isValidRelationshipKey key of
                  Inl e \<Rightarrow> Inl e
                | Inr False \<Rightarrow> Inl (InvalidKey key)
                | Inr True \<Rightarrow>
                    (case map_of d key of
                       None \<Rightarrow> Inl (KeyMissing key)
                     | Some v \<Rightarrow>
                         (case setRelationship self key v w of
                            Inl e \<Rightarrow> Inl e
                          | Inr w1 \<Rightarrow> relationships_setter_loop self d rest w1)))
           | parts \<Rightarrow> Inl (UnpackError (length parts)))
      | _ \<Rightarrow> Inl (NoAttribute ''split''))"

definition relationships_setter :: "model \<Rightarrow> setter_arg \<Rightarrow> world \<Rightarrow> error + world" where
  "relationships_setter self arg w =
     (case arg of
        ArgOther \<Rightarrow> Inl NotADict
      | ArgDict d \<Rightarrow> relationships_setter_loop self d (keys d) w)"

subsection \<open>Adding elements, relationships and packages\<close>

fun add_elements ::
  "(nat \<Rightarrow> string) \<Rightarrow> model \<Rightarrow> pyval list \<Rightarrow> world \<Rightarrow> error + world" where
  "add_elements gen self [] w = Inr w"
| "add_elements gen self (element # elementv) w =
     (case generateKey self w element (length (dicts w (m_elements self)) + 1) of
        Inl e \<Rightarrow> Inl e
      | Inr key \<Rightarrow>
          (case setElement gen self key element w of
             Inl e \<Rightarrow> Inl e
           | Inr w1 \<Rightarrow> add_elements gen self elementv w1))"

fun add_relationships :: "model \<Rightarrow> pyval list \<Rightarrow> world \<Rightarrow> error + world" where
  "add_relationships self [] w = Inr w"
| "add_relationships self (relationship # relationshipv) w =
     (case m_relationships self of
        None \<Rightarrow> Inl (NoAttribute ''_relationships'')
      | Some a \<Rightarrow>
          (case generateKey self w relationship (length (dicts w a) + 1) of
             Inl e \<Rightarrow> Inl e
           | Inr key \<Rightarrow>
               (case setRelationship self key relationship w of
                  Inl e \<Rightarrow> Inl e
                | Inr w1 \<Rightarrow> add_relationships self relationshipv w1)))"

text \<open>
  Modelled from the spec: the constructor \<^verbatim>\<open>Package(label)\<close> is defined in
  \<^verbatim>\<open>sysml.elements\<close>, which is absent. By the spec (3, 4.5) it builds a minimal package
  element from the label: a new instance of \<^verbatim>\<open>Package\<close> that stores the label and has no
  identifier yet. More generally \<open>new_obj c l\<close> is a constructor call of the class \<open>c\<close>
  by the caller.
\<close>

definition new_obj :: "pyclass \<Rightarrow> string option \<Rightarrow> world \<Rightarrow> addr \<times> world" where
  "new_obj c l w =
     (next_obj w,
      w\<lparr>objs := (objs w)(next_obj w := \<lparr>cls = c, obj_label = l, uuid = None\<rparr>),
        next_obj := Suc (next_obj w)\<rparr>)"

text \<open>
  \<^verbatim>\<open>add_package\<close>. In the \<^verbatim>\<open>else\<close> branch the label is not a \<^verbatim>\<open>str\<close>, so
  \<^verbatim>\<open>label + " must be a string"\<close> raises the \<^verbatim>\<open>TypeError\<close> of \<^verbatim>\<open>+\<close> before the
  \<^verbatim>\<open>raise\<close> statement constructs its own.
\<close>

definition add_package :: "(nat \<Rightarrow> string) \<Rightarrow> model \<Rightarrow> pyval \<Rightarrow> world \<Rightarrow> error + world" where
  "add_package gen self label w =
     (case label of
        VStr s \<Rightarrow>
          (case new_obj Package (Some s) w of
             (a, w1) \<Rightarrow> setElement gen self label (VObj a) w1)
      | _ \<Rightarrow> Inl OperandError)"

subsection \<open>What the caller does\<close>

text \<open>
  \<^verbatim>\<open>del d[k]\<close> on the dictionary at \<open>a\<close>, as in \<^verbatim>\<open>del model.elements["block-1"]\<close>.
\<close>

definition delitem :: "addr \<Rightarrow> pyval \<Rightarrow> world \<Rightarrow> error + world" where
  "delitem a k w =
     (if \<not> hashable k then Inl Unhashable
      else if k \<notin> set (keys (dicts w a)) then Inl (KeyMissing k)
      else Inr (w\<lparr>dicts := (dicts w)(a := AList.delete k (dicts w a))\<rparr>))"

text \<open>
  The heap right after the module is imported: the default dictionary of \<^verbatim>\<open>__init__\<close> is
  empty, nothing else is allocated.
\<close>

definition world0 :: world where
  "world0 =
     \<lparr>objs = (\<lambda>a. \<lparr>cls = OtherClass, obj_label = None, uuid = None\<rparr>),
      dicts = (\<lambda>a. []),
      next_obj = 0,
      uuid_calls = 0\<rparr>"

text \<open>An identifier source for examples: call number \<open>n\<close> returns \<open>n + 1\<close> letters.\<close>

definition tally_uuid :: "nat \<Rightarrow> string" where
  "tally_uuid n = replicate (Suc n) (CHR ''u'')"

text \<open>
  The heap after \<^verbatim>\<open>b1 = Block(); b2 = Block(); q = Requirement()\<close>, and the heap after
  \<^verbatim>\<open>Model().add_elements(b1, b2, q)\<close> on it, with \<open>tally_uuid\<close> as the identifier source.
\<close>

definition three_objects :: world where
  "three_objects =
     snd (new_obj Requirement None (snd (new_obj Block None (snd (new_obj Block None world0)))))"

definition example_world :: world where
  "example_world =
     \<lparr>objs = (\<lambda>a. if a = 0 then \<lparr>cls = Block, obj_label = None, uuid = Some ''u''\<rparr>
                  else if a = 1 then \<lparr>cls = Block, obj_label = None, uuid = Some ''uu''\<rparr>
                  else if a = 2 then \<lparr>cls = Requirement, obj_label = None, uuid = Some ''uuu''\<rparr>
                  else \<lparr>cls = OtherClass, obj_label = None, uuid = None\<rparr>),
      dicts = (\<lambda>a. if a = default_elements
                   then [(VStr ''block-1'', VObj 0), (VStr ''block-2'', VObj 1),
                         (VStr ''requirement-1'', VObj 2)]
                   else []),
      next_obj = 3,
      uuid_calls = 3\<rparr>"

text \<open>
  A sequence of insertions \<^verbatim>\<open>_setElement(key, element)\<close>, the one method through which
  \<^verbatim>\<open>__setitem__\<close>, \<^verbatim>\<open>add_elements\<close> and \<^verbatim>\<open>add_package\<close> store an element. Each step reads
  the identifier of the inserted element right after its insertion.
\<close>

definition assigned_uuid :: "world \<Rightarrow> pyval \<Rightarrow> string option" where
  "assigned_uuid w element = (case element of VObj a \<Rightarrow> uuid (objs w a) | _ \<Rightarrow> None)"

fun setElement_seq ::
  "(nat \<Rightarrow> string) \<Rightarrow> model \<Rightarrow> (pyval \<times> pyval) list \<Rightarrow> world
     \<Rightarrow> error + (string option list \<times> world)" where
  "setElement_seq gen self [] w = Inr ([], w)"
| "setElement_seq gen self ((key, element) # rest) w =
     (case setElement gen self key element w of
        Inl e \<Rightarrow> Inl e
      | Inr w1 \<Rightarrow>
          (case setElement_seq gen self rest w1 of
             Inl e \<Rightarrow> Inl e
           | Inr (ids, w2) \<Rightarrow> Inr (assigned_uuid w1 element # ids, w2)))"

section \<open>Evaluation of the string functions and of the example heap\<close>

lemma str_nat_1: "str_nat 1 = ''1''"
  by (simp add: str_nat.simps digit_char_def)

lemma str_nat_2: "str_nat 2 = ''2''"
  by (simp add: str_nat.simps digit_char_def)

lemma py_int_1: "py_int ''1'' = Some 1"
  by (simp add: py_int_def strip_def is_space_def digit_val_def)

lemma block_1_element_key: "isValidElementKey (VStr ''block-1'') = Inr True"
  by (simp add: isValidElementKey_def validElements_def py_int_1)

lemma partProperty_1_not_element_key:
  "isValidElementKey (VStr ''partProperty-1'') = Inr False"
  by (simp add: isValidElementKey_def validElements_def)

lemma partProperty_1_relationship_key:
  "isValidRelationshipKey (VStr ''partProperty-1'') = Inr True"
  by (simp add: isValidRelationshipKey_def validRelationships_def py_int_1)

lemma str_nat_Suc_0: "str_nat (Suc 0) = ''1''"
  using str_nat_1 by simp

lemma str_nat_Suc_Suc_0: "str_nat (Suc (Suc 0)) = ''2''"
  using str_nat_2 by (simp add: numeral_2_eq_2)

lemma three_objects_facts:
  "dicts three_objects (m_elements (init None None)) = []"
  "cls (objs three_objects 0) = Block"
  "cls (objs three_objects (Suc 0)) = Block"
  "cls (objs three_objects 2) = Requirement"
  by (simp_all add: three_objects_def new_obj_def world0_def init_def)

lemma containment_1_keys:
  "isValidElementKey (VStr ''containment-1'') = Inr False"
  "isValidRelationshipKey (VStr ''containment-1'') = Inr True"
  by (simp_all add: isValidElementKey_def isValidRelationshipKey_def validElements_def
      validRelationships_def py_int_1)

lemma example_world_store:
  "dicts example_world (m_elements (init l None))
     = [(VStr ''block-1'', VObj 0), (VStr ''block-2'', VObj 1), (VStr ''requirement-1'', VObj 2)]"
  "m_relationships (init l e) = None"
  "cls (objs example_world 0) = Block"
  "cls (objs example_world (Suc 0)) = Block"
  "cls (objs example_world 2) = Requirement"
  by (simp_all add: example_world_def init_def)

lemma world0_store: "dicts world0 a = []"
  by (simp add: world0_def)

text \<open>The example heap is what the three insertions produce.\<close>

lemma example_world_built:
  "add_elements tally_uuid (init None None) [VObj 0, VObj 1, VObj 2] three_objects
     = Inr example_world"
  by (simp add: three_objects_def new_obj_def world0_def example_world_def init_def
      default_elements_def generateKey_def isValidElement_def validElements_def
      py_isinstance_def keys_def str_nat_Suc_0 str_nat_Suc_Suc_0 setElement_def set_uuid_def
      tally_uuid_def fun_eq_iff)

lemma inj_tally_uuid: "inj tally_uuid"
proof (rule injI)
  fix m n
  assume "tally_uuid m = tally_uuid n"
  then have "length (tally_uuid m) = length (tally_uuid n)"
    by simp
  then show "m = n"
    by (simp add: tally_uuid_def)
qed

section \<open>What one insertion does\<close>

lemma block_valid: "cls (objs w a) = Block \<Longrightarrow> isValidElement w (VObj a)"
  by (simp add: isValidElement_def validElements_def)

text \<open>
  A valid element under a hashable key that is not \<^verbatim>\<open>None\<close>: the entry is written, the
  identifier of call number \<open>uuid_calls w\<close> is assigned, and nothing else changes.
\<close>

lemma setElement_obj:
  assumes "isValidElement w (VObj a)" and "key \<noteq> VNone" and "hashable key"
  shows "setElement gen self key (VObj a) w =
     Inr (w\<lparr>dicts := (dicts w)(m_elements self :=
                AList.update key (VObj a) (dicts w (m_elements self))),
            uuid_calls := Suc (uuid_calls w),
            objs := (objs w)(a := (objs w a)\<lparr>uuid := Some (gen (uuid_calls w))\<rparr>)\<rparr>)"
  using assms by (simp add: setElement_def Let_def update_conv' set_uuid_def)

lemma package_valid: "cls (objs w a) = Package \<Longrightarrow> isValidElement w (VObj a)"
  by (simp add: isValidElement_def validElements_def)

lemma valid_element_is_object:
  "isValidElement w element \<Longrightarrow> \<exists>a. element = VObj a"
  by (cases element) (simp_all add: isValidElement_def validElements_def)

lemma setElement_assigns:
  assumes "setElement gen self key element w = Inr w1"
  shows "uuid_calls w1 = Suc (uuid_calls w)
       \<and> assigned_uuid w1 element = Some (gen (uuid_calls w))"
proof -
  from assms have k: "key \<noteq> VNone" and v: "isValidElement w element" and h: "hashable key"
    by (auto simp: setElement_def split: if_splits)
  from v obtain a where a: "element = VObj a"
    using valid_element_is_object by blast
  from assms show ?thesis
    using setElement_obj [OF v [unfolded a] k h, of gen self]
    by (auto simp: a assigned_uuid_def)
qed

lemma setElement_seq_ids:
  "setElement_seq gen self kvs w = Inr (ids, w')
     \<Longrightarrow> ids = map (\<lambda>i. Some (gen i)) [uuid_calls w ..< uuid_calls w + length kvs]
       \<and> uuid_calls w' = uuid_calls w + length kvs"
proof (induction kvs arbitrary: w ids)
  case Nil
  then show ?case by simp
next
  case (Cons kv kvs)
  obtain key element where kv: "kv = (key, element)"
    by (cases kv)
  from Cons.prems obtain w1 ids1 where
    s: "setElement gen self key element w = Inr w1" and
    r: "setElement_seq gen self kvs w1 = Inr (ids1, w')" and
    i: "ids = assigned_uuid w1 element # ids1"
    by (auto simp: kv split: sum.splits)
  from setElement_assigns [OF s] have
    c: "uuid_calls w1 = Suc (uuid_calls w)" and
    u: "assigned_uuid w1 element = Some (gen (uuid_calls w))"
    by simp_all
  from Cons.IH [OF r] have
    t: "ids1 = map (\<lambda>i. Some (gen i)) [uuid_calls w1 ..< uuid_calls w1 + length kvs]" and
    e: "uuid_calls w' = uuid_calls w1 + length kvs"
    by simp_all
  have "uuid_calls w < uuid_calls w + length (kv # kvs)"
    by simp
  then have "[uuid_calls w ..< uuid_calls w + length (kv # kvs)]
      = uuid_calls w # [Suc (uuid_calls w) ..< uuid_calls w + length (kv # kvs)]"
    by (rule upt_conv_Cons)
  then have l: "[uuid_calls w ..< uuid_calls w + length (kv # kvs)]
      = uuid_calls w # [uuid_calls w1 ..< uuid_calls w1 + length kvs]"
    by (simp add: c)
  have "ids = map (\<lambda>i. Some (gen i)) [uuid_calls w ..< uuid_calls w + length (kv # kvs)]"
    unfolding l using i u t by simp
  moreover have "uuid_calls w' = uuid_calls w + length (kv # kvs)"
    using e c by simp
  ultimately show ?case
    by blast
qed

text \<open>
  The kinds of elements and of relationships have no name in common, so a key that
  \<^verbatim>\<open>_isValidRelationshipKey\<close> accepts is one that \<^verbatim>\<open>_isValidElementKey\<close> answers with
  \<^verbatim>\<open>False\<close>, and \<^verbatim>\<open>__setitem__\<close> hands it to \<^verbatim>\<open>_setRelationship\<close>.
\<close>

lemma relationship_key_is_string:
  "isValidRelationshipKey k = Inr True \<Longrightarrow> \<exists>s a b. k = VStr s \<and> split_dash s = [a, b]"
  by (cases k)
     (auto simp: isValidRelationshipKey_def split: list.splits if_splits option.splits)

lemma relationship_key_not_element_key:
  assumes "isValidRelationshipKey k = Inr True"
  shows "isValidElementKey k = Inr False"
proof -
  from assms obtain s a b where k: "k = VStr s" and p: "split_dash s = [a, b]"
    using relationship_key_is_string by blast
  from assms have "a \<in> set (map fst validRelationships)"
    by (auto simp: isValidRelationshipKey_def k p split: if_splits option.splits)
  then have "a \<notin> set (map fst validElements)"
    by (auto simp: validRelationships_def validElements_def)
  then show ?thesis
    by (simp add: isValidElementKey_def k p)
qed

lemma setRelationship_without_store:
  assumes "m_relationships self = None"
    and "VStr (source r) \<in> set (keys (dicts w (m_elements self)))"
    and "VStr (target r) \<in> set (keys (dicts w (m_elements self)))"
    and "isValidRelationship self w (VRel r) = Inr True"
  shows "setRelationship self key (VRel r) w = Inl (NoAttribute ''_relationships'')"
  using assms by (simp add: setRelationship_def)

lemma setRelationship_absent_target:
  assumes "VStr (source r) \<in> set (keys (dicts w (m_elements self)))"
    and "VStr (target r) \<notin> set (keys (dicts w (m_elements self)))"
  shows "setRelationship self key (VRel r) w = Inl (MissingTarget (target r))"
  using assms by (simp add: setRelationship_def)

section \<open>The bulk setters\<close>

text \<open>
  C4. The claim: assigning a \<^verbatim>\<open>dict\<close> to \<^verbatim>\<open>model.elements\<close> validates and inserts each entry
  as a single-key \<^verbatim>\<open>set\<close> does. The code: for every \<^verbatim>\<open>dict\<close> with at least one entry,
  whatever the entry, the setter raises the \<^verbatim>\<open>AttributeError\<close> of looking up
  \<^verbatim>\<open>_setElements\<close>, and inserts nothing.
\<close>

theorem elements_setter_calls_missing_method:
  "elements_setter self (ArgDict ((key, element) # d)) w = Inl (NoAttribute ''_setElements'')"
  by (simp add: elements_setter_def keys_def)

text \<open>The other half of the sentence holds: a value that is no \<^verbatim>\<open>dict\<close> is refused by both setters.\<close>

lemma setters_reject_other_types:
  "elements_setter self ArgOther w = Inl NotADict"
  "relationships_setter self ArgOther w = Inl NotADict"
  "exc_class NotADict = TypeError"
  by (simp_all add: elements_setter_def relationships_setter_def)

section \<open>Keys that match no pattern\<close>

text \<open>
  C6. The claim: \<^verbatim>\<open>set("bogus!!", value)\<close> fails with an error that carries the offending
  key. The code: \<^verbatim>\<open>"bogus!!".split('-')\<close> has one part, so the unpacking in
  \<^verbatim>\<open>_isValidElementKey\<close> raises \<^verbatim>\<open>ValueError: not enough values to unpack (expected 2,
  got 1)\<close>, which does not mention the key; the \<^verbatim>\<open>raise\<close> of \<^verbatim>\<open>__setitem__\<close>, whose
  message is built from the key, is not reached.
\<close>

theorem setitem_bogus_unpack_error:
  "setitem gen self (VStr ''bogus!!'') element w = Inl (UnpackError 1)"
  by (simp add: setitem_def isValidElementKey_def)

text \<open>
  The class of the exception is the one meant: a string that neither validator accepts makes
  \<^verbatim>\<open>__setitem__\<close> end in a \<^verbatim>\<open>ValueError\<close>, from the unpacking, from \<^verbatim>\<open>int\<close> or from its own
  \<^verbatim>\<open>raise\<close>.
\<close>

lemma isValidElementKey_error_class:
  "isValidElementKey (VStr s) = Inl e \<Longrightarrow> exc_class e = ValueError"
  by (auto simp: isValidElementKey_def split: list.splits if_splits option.splits)

lemma isValidRelationshipKey_error_class:
  "isValidRelationshipKey (VStr s) = Inl e \<Longrightarrow> exc_class e = ValueError"
  by (auto simp: isValidRelationshipKey_def split: list.splits if_splits option.splits)

lemma setitem_unmatched_key_ValueError:
  assumes "isValidElementKey (VStr s) \<noteq> Inr True"
    and "isValidRelationshipKey (VStr s) \<noteq> Inr True"
  shows "\<exists>e. setitem gen self (VStr s) element w = Inl e \<and> exc_class e = ValueError"
proof (cases "isValidElementKey (VStr s)")
  case (Inl e)
  then show ?thesis
    by (simp add: setitem_def isValidElementKey_error_class)
next
  case (Inr b)
  with assms(1) have f: "isValidElementKey (VStr s) = Inr False"
    by simp
  show ?thesis
  proof (cases "isValidRelationshipKey (VStr s)")
    case (Inl e)
    then show ?thesis
      by (simp add: setitem_def f isValidRelationshipKey_error_class)
  next
    case (Inr c)
    with assms(2) have "isValidRelationshipKey (VStr s) = Inr False"
      by simp
    then show ?thesis
      by (simp add: setitem_def f)
  qed
qed

section \<open>Generated keys\<close>

text \<open>
  C3. On a model whose element store is empty, \<^verbatim>\<open>add_elements(b1, b2)\<close> with two blocks
  stores them under \<^verbatim>\<open>"block-1"\<close> and \<^verbatim>\<open>"block-2"\<close>, in that order; after
  \<^verbatim>\<open>del model.elements["block-1"]\<close>, \<^verbatim>\<open>add_elements(b3)\<close> with a block stores it under
  \<^verbatim>\<open>"block-1"\<close>, the lowest free number, and no key \<^verbatim>\<open>"block-3"\<close> appears.
\<close>

theorem add_elements_block_keys:
  assumes "dicts w (m_elements self) = []"
    and "cls (objs w b1) = Block" and "cls (objs w b2) = Block" and "cls (objs w b3) = Block"
  shows "\<exists>w1 w2 w3.
           add_elements gen self [VObj b1, VObj b2] w = Inr w1
         \<and> dicts w1 (elements self) = [(VStr ''block-1'', VObj b1), (VStr ''block-2'', VObj b2)]
         \<and> delitem (elements self) (VStr ''block-1'') w1 = Inr w2
         \<and> dicts w2 (elements self) = [(VStr ''block-2'', VObj b2)]
         \<and> add_elements gen self [VObj b3] w2 = Inr w3
         \<and> dicts w3 (elements self) = [(VStr ''block-2'', VObj b2), (VStr ''block-1'', VObj b3)]"
  using assms
  by (simp add: generateKey_def isValidElement_def validElements_def py_isinstance_def keys_def
      str_nat_Suc_0 str_nat_Suc_Suc_0 setElement_def set_uuid_def elements_def delitem_def
      AList.delete_eq)

text \<open>The same on the heap that holds two new blocks, the first of them added again.\<close>

theorem add_elements_block_keys_witness:
  "\<exists>w1 w2 w3.
       add_elements tally_uuid (init None None) [VObj 0, VObj 1] three_objects = Inr w1
     \<and> dicts w1 (elements (init None None))
         = [(VStr ''block-1'', VObj 0), (VStr ''block-2'', VObj 1)]
     \<and> delitem (elements (init None None)) (VStr ''block-1'') w1 = Inr w2
     \<and> dicts w2 (elements (init None None)) = [(VStr ''block-2'', VObj 1)]
     \<and> add_elements tally_uuid (init None None) [VObj 0] w2 = Inr w3
     \<and> dicts w3 (elements (init None None))
         = [(VStr ''block-2'', VObj 1), (VStr ''block-1'', VObj 0)]"
  by (rule add_elements_block_keys) (simp_all add: three_objects_facts)

section \<open>Overwriting\<close>

text \<open>
  C7. With \<open>b1\<close> and \<open>b2\<close> blocks, \<^verbatim>\<open>model["block-1"] = b1\<close> followed by
  \<^verbatim>\<open>model["block-1"] = b2\<close> succeeds twice; afterwards \<^verbatim>\<open>model["block-1"]\<close> is \<open>b2\<close>, the
  store is the old store with the one key \<^verbatim>\<open>"block-1"\<close> bound to \<open>b2\<close>, and the identifier
  that \<open>b2\<close> carries is not the identifier that the first assignment gave to \<open>b1\<close>. The
  identifier source is taken to return a new string at each call.
\<close>

theorem setitem_overwrites:
  assumes "cls (objs w b1) = Block" and "cls (objs w b2) = Block" and "inj gen"
  shows "\<exists>w1 w2.
           setitem gen self (VStr ''block-1'') (VObj b1) w = Inr w1
         \<and> setitem gen self (VStr ''block-1'') (VObj b2) w1 = Inr w2
         \<and> getitem self (VStr ''block-1'') w2 = Inr (VObj b2)
         \<and> dicts w2 (m_elements self)
             = AList.update (VStr ''block-1'') (VObj b2) (dicts w (m_elements self))
         \<and> uuid (objs w1 b1) \<noteq> None
         \<and> uuid (objs w2 b2) \<noteq> None
         \<and> uuid (objs w2 b2) \<noteq> uuid (objs w1 b1)"
proof -
  have v1: "isValidElement w (VObj b1)"
    using assms(1) by (rule block_valid)
  define w1 where "w1 = w\<lparr>dicts := (dicts w)(m_elements self :=
        AList.update (VStr ''block-1'') (VObj b1) (dicts w (m_elements self))),
      uuid_calls := Suc (uuid_calls w),
      objs := (objs w)(b1 := (objs w b1)\<lparr>uuid := Some (gen (uuid_calls w))\<rparr>)\<rparr>"
  have s1: "setitem gen self (VStr ''block-1'') (VObj b1) w = Inr w1"
    by (simp add: setitem_def block_1_element_key setElement_obj [OF v1] w1_def)
  have v2: "isValidElement w1 (VObj b2)"
    by (rule block_valid) (simp add: w1_def assms(1) assms(2))
  define w2 where "w2 = w1\<lparr>dicts := (dicts w1)(m_elements self :=
        AList.update (VStr ''block-1'') (VObj b2) (dicts w1 (m_elements self))),
      uuid_calls := Suc (uuid_calls w1),
      objs := (objs w1)(b2 := (objs w1 b2)\<lparr>uuid := Some (gen (uuid_calls w1))\<rparr>)\<rparr>"
  have s2: "setitem gen self (VStr ''block-1'') (VObj b2) w1 = Inr w2"
    by (simp add: setitem_def block_1_element_key setElement_obj [OF v2] w2_def)
  have g: "getitem self (VStr ''block-1'') w2 = Inr (VObj b2)"
    by (simp add: getitem_def w2_def update_conv')
  have d: "dicts w2 (m_elements self)
             = AList.update (VStr ''block-1'') (VObj b2) (dicts w (m_elements self))"
    by (simp add: w2_def w1_def)
  have u1: "uuid (objs w1 b1) = Some (gen (uuid_calls w))"
    by (simp add: w1_def)
  have u2: "uuid (objs w2 b2) = Some (gen (Suc (uuid_calls w)))"
    by (simp add: w2_def w1_def)
  have ne: "gen (Suc (uuid_calls w)) \<noteq> gen (uuid_calls w)"
    using assms(3) by (simp add: inj_eq)
  show ?thesis
    using s1 s2 g d u1 u2 ne by simp
qed

text \<open>The same with two new blocks and the identifier source of the examples.\<close>

theorem setitem_overwrites_witness:
  "\<exists>w1 w2.
       setitem tally_uuid (init None None) (VStr ''block-1'') (VObj 0) three_objects = Inr w1
     \<and> setitem tally_uuid (init None None) (VStr ''block-1'') (VObj 1) w1 = Inr w2
     \<and> getitem (init None None) (VStr ''block-1'') w2 = Inr (VObj 1)
     \<and> dicts w2 (m_elements (init None None))
         = AList.update (VStr ''block-1'') (VObj 1)
             (dicts three_objects (m_elements (init None None)))
     \<and> uuid (objs w1 0) \<noteq> None
     \<and> uuid (objs w2 1) \<noteq> None
     \<and> uuid (objs w2 1) \<noteq> uuid (objs w1 0)"
  by (rule setitem_overwrites) (simp_all add: three_objects_facts inj_tally_uuid)

section \<open>Packages\<close>

text \<open>
  C8. \<^verbatim>\<open>add_package(label)\<close> with a label that is not a string raises a \<^verbatim>\<open>TypeError\<close>.
  With a string it succeeds: the store binds the label itself, not a generated key, to a
  new element, \<^verbatim>\<open>model[label]\<close> returns that element, its class is \<^verbatim>\<open>Package\<close>, its label is
  the argument and it carries an identifier.
\<close>

theorem add_package_creates_package:
  "(py_type w label \<noteq> StrType \<longrightarrow>
      (\<exists>e. add_package gen self label w = Inl e \<and> exc_class e = TypeError))
   \<and> (\<forall>s. label = VStr s \<longrightarrow>
        (\<exists>w1 a. add_package gen self label w = Inr w1
               \<and> map_of (dicts w1 (m_elements self)) label = Some (VObj a)
               \<and> getitem self label w1 = Inr (VObj a)
               \<and> cls (objs w1 a) = Package
               \<and> obj_label (objs w1 a) = Some s
               \<and> uuid (objs w1 a) \<noteq> None))"
proof (intro conjI impI allI)
  assume "py_type w label \<noteq> StrType"
  then have "add_package gen self label w = Inl OperandError"
    by (cases label) (simp_all add: add_package_def)
  then show "\<exists>e. add_package gen self label w = Inl e \<and> exc_class e = TypeError"
    by simp
next
  fix s
  assume l: "label = VStr s"
  define a where "a = next_obj w"
  define w0 where "w0 = snd (new_obj Package (Some s) w)"
  have n: "new_obj Package (Some s) w = (a, w0)"
    by (simp add: new_obj_def a_def w0_def)
  have v: "isValidElement w0 (VObj a)"
    by (rule package_valid) (simp add: w0_def new_obj_def a_def)
  define w1 where "w1 = w0\<lparr>dicts := (dicts w0)(m_elements self :=
        AList.update label (VObj a) (dicts w0 (m_elements self))),
      uuid_calls := Suc (uuid_calls w0),
      objs := (objs w0)(a := (objs w0 a)\<lparr>uuid := Some (gen (uuid_calls w0))\<rparr>)\<rparr>"
  have s1: "add_package gen self label w = Inr w1"
    using setElement_obj [OF v, of label gen self] l n
    by (simp add: add_package_def w1_def)
  have m: "map_of (dicts w1 (m_elements self)) label = Some (VObj a)"
    by (simp add: w1_def update_conv')
  have g: "getitem self label w1 = Inr (VObj a)"
    using m l by (simp add: getitem_def)
  have c: "cls (objs w1 a) = Package \<and> obj_label (objs w1 a) = Some s \<and> uuid (objs w1 a) \<noteq> None"
    by (simp add: w1_def w0_def new_obj_def a_def)
  show "\<exists>w1 a. add_package gen self label w = Inr w1
               \<and> map_of (dicts w1 (m_elements self)) label = Some (VObj a)
               \<and> getitem self label w1 = Inr (VObj a)
               \<and> cls (objs w1 a) = Package
               \<and> obj_label (objs w1 a) = Some s
               \<and> uuid (objs w1 a) \<noteq> None"
    using s1 m g c by blast
qed

text \<open>The two cases on the heap of a new module: \<^verbatim>\<open>None\<close>, and \<^verbatim>\<open>"Vehicle"\<close>.\<close>

theorem add_package_creates_package_witness:
  "(\<exists>e. add_package tally_uuid (init None None) VNone world0 = Inl e \<and> exc_class e = TypeError)
   \<and> (\<exists>w1 a. add_package tally_uuid (init None None) (VStr ''Vehicle'') world0 = Inr w1
               \<and> map_of (dicts w1 (m_elements (init None None))) (VStr ''Vehicle'') = Some (VObj a)
               \<and> getitem (init None None) (VStr ''Vehicle'') w1 = Inr (VObj a)
               \<and> cls (objs w1 a) = Package
               \<and> obj_label (objs w1 a) = Some ''Vehicle''
               \<and> uuid (objs w1 a) \<noteq> None)"
  using add_package_creates_package [of world0 VNone tally_uuid "init None None"]
    add_package_creates_package [of world0 "VStr ''Vehicle''" tally_uuid "init None None"]
  by simp

section \<open>Identifiers\<close>

text \<open>
  C9. Across any sequence of successful insertions of elements, read one after the other,
  the identifiers assigned are pairwise distinct, each insertion assigns one, and the
  identifier source is taken to return a new string at each call.
\<close>

theorem assigned_ids_distinct:
  assumes "inj gen" and "setElement_seq gen self kvs w = Inr (ids, w')"
  shows "distinct ids \<and> length ids = length kvs \<and> None \<notin> set ids"
proof -
  from setElement_seq_ids [OF assms(2)] have
    i: "ids = map (\<lambda>i. Some (gen i)) [uuid_calls w ..< uuid_calls w + length kvs]"
    by simp
  have "inj (\<lambda>i. Some (gen i))"
    using assms(1) by (simp add: inj_def)
  then have "distinct (map (\<lambda>i. Some (gen i)) [uuid_calls w ..< uuid_calls w + length kvs])"
    by (simp add: distinct_map inj_on_def inj_def)
  then show ?thesis
    using i by auto
qed

text \<open>
  Three insertions, the third of an element that is in the store already: its identifier is
  replaced by a new one.
\<close>

theorem assigned_ids_distinct_witness:
  "\<exists>w'. setElement_seq tally_uuid (init None None)
            [(VStr ''block-1'', VObj 0), (VStr ''block-2'', VObj 1), (VStr ''spare'', VObj 0)]
            three_objects = Inr ([Some ''u'', Some ''uu'', Some ''uuu''], w')
       \<and> distinct [Some ''u'', Some ''uu'', Some ''uuu'']"
proof -
  have "\<exists>w'. setElement_seq tally_uuid (init None None)
            [(VStr ''block-1'', VObj 0), (VStr ''block-2'', VObj 1), (VStr ''spare'', VObj 0)]
            three_objects = Inr ([Some ''u'', Some ''uu'', Some ''uuu''], w')"
    by (simp add: setElement_def set_uuid_def isValidElement_def validElements_def
        three_objects_def new_obj_def world0_def init_def assigned_uuid_def tally_uuid_def)
  then obtain w' where e: "setElement_seq tally_uuid (init None None)
            [(VStr ''block-1'', VObj 0), (VStr ''block-2'', VObj 1), (VStr ''spare'', VObj 0)]
            three_objects = Inr ([Some ''u'', Some ''uu'', Some ''uuu''], w')"
    by blast
  from assigned_ids_distinct [OF inj_tally_uuid e]
  have "distinct [Some ''u'', Some ''uu'', Some ''uuu'']"
    by blast
  with e show ?thesis
    by blast
qed

section \<open>Inserting relationships\<close>

text \<open>
  C1. The claim: a \<^verbatim>\<open>partProperty\<close> between two stored blocks is inserted and can be read
  back, and one between elements of other types fails with the error of a schema
  violation. The code, on a model built by the constructor that holds blocks under
  \<^verbatim>\<open>"block-1"\<close> and \<^verbatim>\<open>"block-2"\<close> and a requirement under \<^verbatim>\<open>"requirement-1"\<close>: between the
  two blocks all checks pass and the store \<^verbatim>\<open>self._relationships\<close>, which \<^verbatim>\<open>__init__\<close> never
  made, is looked up, an \<^verbatim>\<open>AttributeError\<close>; between the block and the requirement the
  message of the \<^verbatim>\<open>TypeError\<close> reads the undefined name \<^verbatim>\<open>relationships\<close>, a \<^verbatim>\<open>NameError\<close>.
\<close>

theorem partProperty_insertion_raises:
  "setitem tally_uuid (init None None) (VStr ''partProperty-1'')
     (VRel \<lparr>relationshipType = ''partProperty'', source = ''block-1'', target = ''block-2'',
            interned = True\<rparr>) example_world
     = Inl (NoAttribute ''_relationships'')
   \<and> setitem tally_uuid (init None None) (VStr ''partProperty-1'')
     (VRel \<lparr>relationshipType = ''partProperty'', source = ''block-1'',
            target = ''requirement-1'', interned = True\<rparr>) example_world
     = Inl (NameUndefined ''relationships'')"
  by (simp add: setitem_def partProperty_1_not_element_key partProperty_1_relationship_key
      setRelationship_def isValidRelationship_def keys_def validRelationships_def
      example_world_store)

text \<open>
  C2. The claim: a relationship whose source is no key of the element store fails with the
  error of referential integrity, as one whose target is absent does. The code, on a new
  model with an empty store: the message of the first \<^verbatim>\<open>raise\<close> reads
  \<^verbatim>\<open>relationships[key]["source"]\<close>, and \<^verbatim>\<open>relationships\<close> is no name of the function or of the
  module, so the statement ends in a \<^verbatim>\<open>NameError\<close>. The next statement, for the target,
  reads \<^verbatim>\<open>relationship["target"]\<close> and raises the \<^verbatim>\<open>TypeError\<close> it means to.
\<close>

theorem absent_source_raises_NameError:
  "setitem tally_uuid (init None None) (VStr ''partProperty-1'')
     (VRel \<lparr>relationshipType = ''partProperty'', source = ''block-1'', target = ''block-2'',
            interned = True\<rparr>) world0
     = Inl (NameUndefined ''relationships'')
   \<and> setitem tally_uuid (init None None) (VStr ''partProperty-1'')
     (VRel \<lparr>relationshipType = ''partProperty'', source = ''block-1'', target = ''block-9'',
            interned = True\<rparr>) example_world
     = Inl (MissingTarget ''block-9'')"
  by (simp add: setitem_def partProperty_1_not_element_key partProperty_1_relationship_key
      setRelationship_def keys_def example_world_store world0_store)

section \<open>Two instances\<close>

text \<open>
  C10. The claim: two models built without an \<^verbatim>\<open>elements\<close> argument have separate element
  stores. The code: both hold the one default dictionary of \<^verbatim>\<open>__init__\<close>; the store of the
  second model is empty before \<^verbatim>\<open>first["block-1"] = b\<close> and holds \<open>b\<close> under \<^verbatim>\<open>"block-1"\<close>
  after it.
\<close>

theorem default_store_is_shared:
  "elements (init None None) = elements (init (Some (VStr ''second'')) None)
   \<and> dicts three_objects (elements (init (Some (VStr ''second'')) None)) = []
   \<and> (\<exists>w1. setitem tally_uuid (init None None) (VStr ''block-1'') (VObj 0) three_objects = Inr w1
           \<and> dicts w1 (elements (init (Some (VStr ''second'')) None))
               = [(VStr ''block-1'', VObj 0)]
           \<and> getitem (init (Some (VStr ''second'')) None) (VStr ''block-1'') w1 = Inr (VObj 0))"
  by (simp add: elements_def init_def setitem_def block_1_element_key setElement_def
      set_uuid_def isValidElement_def validElements_def getitem_def
      three_objects_def new_obj_def world0_def)

text \<open>
  An insertion writes no dictionary but the one its model holds: models built over two
  dictionaries do not see each other's elements.
\<close>

lemma setElement_other_store:
  assumes "setElement gen self key element w = Inr w1" and "a \<noteq> m_elements self"
  shows "dicts w1 a = dicts w a"
proof -
  from assms(1) have k: "key \<noteq> VNone" and v: "isValidElement w element" and h: "hashable key"
    by (auto simp: setElement_def split: if_splits)
  from v obtain b where b: "element = VObj b"
    using valid_element_is_object by blast
  from assms show ?thesis
    using setElement_obj [OF v [unfolded b] k h, of gen self]
    by (auto simp: b)
qed

section \<open>The relationship store\<close>

text \<open>
  C5. The claim: on a model built by the constructor, any insertion of a relationship by
  \<^verbatim>\<open>model[key] = relationship\<close> fails with an \<^verbatim>\<open>AttributeError\<close> and not with a documented
  error. As stated it fails: with the source stored and the target absent, the guard for
  the target, which stands before the store is touched, raises its \<^verbatim>\<open>TypeError\<close>.
\<close>

theorem absent_target_raises_TypeError:
  "setitem tally_uuid (init None None) (VStr ''containment-1'')
     (VRel \<lparr>relationshipType = ''containment'', source = ''block-2'', target = ''block-7'',
            interned = True\<rparr>) example_world
     = Inl (MissingTarget ''block-7'')
   \<and> exc_class (MissingTarget ''block-7'') = TypeError
   \<and> exc_class (MissingTarget ''block-7'') \<noteq> AttributeError"
  by (simp add: setitem_def containment_1_keys setRelationship_def keys_def example_world_store)

text \<open>
  C5, amended. On a model without the attribute \<^verbatim>\<open>_relationships\<close>, as every model built
  by the constructor is, these raise the \<^verbatim>\<open>AttributeError\<close> of looking it up: reading
  \<^verbatim>\<open>model.relationships\<close>; reading \<^verbatim>\<open>model[key]\<close> for a hashable key that is not in the
  element store; \<^verbatim>\<open>add_relationships\<close> with at least one argument; and, for a valid
  relationship key and a relationship whose source and target are stored and which passes
  \<^verbatim>\<open>_isValidRelationship\<close>, both \<^verbatim>\<open>model[key] = relationship\<close> and the bulk setter given a
  \<^verbatim>\<open>dict\<close> that starts with that entry. An insertion whose source is stored and whose target
  is not raises the \<^verbatim>\<open>TypeError\<close> of the target guard instead.
\<close>

theorem relationship_store_never_made:
  assumes "m_relationships self = None"
  shows "relationships self = Inl (NoAttribute ''_relationships'')
       \<and> (hashable key \<and> map_of (dicts w (m_elements self)) key = None
            \<longrightarrow> getitem self key w = Inl (NoAttribute ''_relationships''))
       \<and> add_relationships self (relationship # relationshipv) w
            = Inl (NoAttribute ''_relationships'')
       \<and> (isValidRelationshipKey k = Inr True
            \<and> VStr (source r) \<in> set (keys (dicts w (m_elements self)))
            \<and> VStr (target r) \<in> set (keys (dicts w (m_elements self)))
            \<and> isValidRelationship self w (VRel r) = Inr True
            \<longrightarrow> setitem gen self k (VRel r) w = Inl (NoAttribute ''_relationships'')
              \<and> relationships_setter self (ArgDict ((k, VRel r) # d)) w
                   = Inl (NoAttribute ''_relationships''))
       \<and> (isValidRelationshipKey k = Inr True
            \<and> VStr (source r') \<in> set (keys (dicts w (m_elements self)))
            \<and> VStr (target r') \<notin> set (keys (dicts w (m_elements self)))
            \<longrightarrow> setitem gen self k (VRel r') w = Inl (MissingTarget (target r')))"
proof (intro conjI impI)
  show "relationships self = Inl (NoAttribute ''_relationships'')"
    using assms by (simp add: relationships_def)
next
  assume "hashable key \<and> map_of (dicts w (m_elements self)) key = None"
  then show "getitem self key w = Inl (NoAttribute ''_relationships'')"
    using assms by (simp add: getitem_def)
next
  show "add_relationships self (relationship # relationshipv) w
          = Inl (NoAttribute ''_relationships'')"
    using assms by simp
next
  assume h: "isValidRelationshipKey k = Inr True
            \<and> VStr (source r) \<in> set (keys (dicts w (m_elements self)))
            \<and> VStr (target r) \<in> set (keys (dicts w (m_elements self)))
            \<and> isValidRelationship self w (VRel r) = Inr True"
  then have s: "setRelationship self k (VRel r) w = Inl (NoAttribute ''_relationships'')"
    using assms by (simp add: setRelationship_without_store)
  from h have e: "isValidElementKey k = Inr False"
    by (simp add: relationship_key_not_element_key)
  show "setitem gen self k (VRel r) w = Inl (NoAttribute ''_relationships'')"
    using h e s by (simp add: setitem_def)
  from h obtain t a b where k: "k = VStr t" and p: "split_dash t = [a, b]"
    using relationship_key_is_string by blast
  show "relationships_setter self (ArgDict ((k, VRel r) # d)) w
          = Inl (NoAttribute ''_relationships'')"
    using h s by (simp add: relationships_setter_def keys_def k p)
next
  assume h: "isValidRelationshipKey k = Inr True
            \<and> VStr (source r') \<in> set (keys (dicts w (m_elements self)))
            \<and> VStr (target r') \<notin> set (keys (dicts w (m_elements self)))"
  then have s: "setRelationship self k (VRel r') w = Inl (MissingTarget (target r'))"
    by (simp add: setRelationship_absent_target)
  from h have e: "isValidElementKey k = Inr False"
    by (simp add: relationship_key_not_element_key)
  show "setitem gen self k (VRel r') w = Inl (MissingTarget (target r'))"
    using h e s by (simp add: setitem_def)
qed

text \<open>
  All six on the example heap: the key \<^verbatim>\<open>"block-9"\<close> is not stored, a containment from
  \<^verbatim>\<open>"block-1"\<close> to \<^verbatim>\<open>"block-2"\<close> passes every check, one from \<^verbatim>\<open>"block-2"\<close> to \<^verbatim>\<open>"block-8"\<close>
  has no target.
\<close>

theorem relationship_store_never_made_witness:
  "relationships (init None None) = Inl (NoAttribute ''_relationships'')
   \<and> getitem (init None None) (VStr ''block-9'') example_world
        = Inl (NoAttribute ''_relationships'')
   \<and> add_relationships (init None None)
        [VRel \<lparr>relationshipType = ''containment'', source = ''block-1'', target = ''block-2'',
               interned = True\<rparr>] example_world
        = Inl (NoAttribute ''_relationships'')
   \<and> setitem tally_uuid (init None None) (VStr ''containment-1'')
        (VRel \<lparr>relationshipType = ''containment'', source = ''block-1'', target = ''block-2'',
               interned = True\<rparr>) example_world
        = Inl (NoAttribute ''_relationships'')
   \<and> relationships_setter (init None None)
        (ArgDict [(VStr ''containment-1'',
                   VRel \<lparr>relationshipType = ''containment'', source = ''block-1'',
                          target = ''block-2'', interned = True\<rparr>)]) example_world
        = Inl (NoAttribute ''_relationships'')
   \<and> setitem tally_uuid (init None None) (VStr ''containment-1'')
        (VRel \<lparr>relationshipType = ''containment'', source = ''block-2'', target = ''block-8'',
               interned = True\<rparr>) example_world
        = Inl (MissingTarget ''block-8'')"
proof -
  have a: "m_relationships (init None None) = None"
    by (simp add: example_world_store)
  have b: "hashable (VStr ''block-9'')
      \<and> map_of (dicts example_world (m_elements (init None None))) (VStr ''block-9'') = None"
    by (simp add: example_world_store)
  have c: "isValidRelationshipKey (VStr ''containment-1'') = Inr True
      \<and> VStr (source \<lparr>relationshipType = ''containment'', source = ''block-1'',
                       target = ''block-2'', interned = True\<rparr>)
          \<in> set (keys (dicts example_world (m_elements (init None None))))
      \<and> VStr (target \<lparr>relationshipType = ''containment'', source = ''block-1'',
                       target = ''block-2'', interned = True\<rparr>)
          \<in> set (keys (dicts example_world (m_elements (init None None))))
      \<and> isValidRelationship (init None None) example_world
          (VRel \<lparr>relationshipType = ''containment'', source = ''block-1'',
                 target = ''block-2'', interned = True\<rparr>) = Inr True"
    by (simp add: containment_1_keys example_world_store keys_def isValidRelationship_def
        validRelationships_def)
  have d: "isValidRelationshipKey (VStr ''containment-1'') = Inr True
      \<and> VStr (source \<lparr>relationshipType = ''containment'', source = ''block-2'',
                       target = ''block-8'', interned = True\<rparr>)
          \<in> set (keys (dicts example_world (m_elements (init None None))))
      \<and> VStr (target \<lparr>relationshipType = ''containment'', source = ''block-2'',
                       target = ''block-8'', interned = True\<rparr>)
          \<notin> set (keys (dicts example_world (m_elements (init None None))))"
    by (simp add: containment_1_keys example_world_store keys_def)
  show ?thesis
    using relationship_store_never_made [OF a,
        where key = "VStr ''block-9''" and w = example_world
          and k = "VStr ''containment-1''" and gen = tally_uuid and d = "[]"
          and relationshipv = "[]"
          and relationship = "VRel \<lparr>relationshipType = ''containment'', source = ''block-1'',
                 target = ''block-2'', interned = True\<rparr>"
          and r = "\<lparr>relationshipType = ''containment'', source = ''block-1'',
                 target = ''block-2'', interned = True\<rparr>"
          and r' = "\<lparr>relationshipType = ''containment'', source = ''block-2'',
                 target = ''block-8'', interned = True\<rparr>"] b c d
    by simp
qed

end
